theory Spec2Isabelle
  imports Complex_Main
begin

section \<open>JavaScript values\<close>

text \<open>
  The scripts work on the value that \<^verbatim>\<open>JSON.parse\<close> returns, and \<^verbatim>\<open>extractFeatures\<close>
  accepts any value. A number is an IEEE double: only its type, and whether it is
  \<^verbatim>\<open>0\<close> or \<^verbatim>\<open>NaN\<close> (the falsy numbers), is looked at by the code, so it is kept as
  a real or one of the three special values. An object is the list of its own
  properties; a property is looked up by its name, the first entry of that name counting.
  A string is a list of characters with codes below 256.
\<close>

datatype number = NaN | PosInf | NegInf | Finite real

datatype jsval =
    JUndefined
  | JNull
  | JBool bool
  | JNum number
  | JStr string
  | JArr "jsval list"
  | JObj "(string \<times> jsval) list"

datatype error = TypeError

text \<open>\<^verbatim>\<open>!!v\<close>: the falsy values are undefined, null, false, 0, NaN and the empty string.\<close>

fun truthy :: "jsval \<Rightarrow> bool" where
  "truthy JUndefined = False"
| "truthy JNull = False"
| "truthy (JBool b) = b"
| "truthy (JNum n) = (n \<noteq> NaN \<and> n \<noteq> Finite 0)"
| "truthy (JStr s) = (s \<noteq> [])"
| "truthy (JArr xs) = True"
| "truthy (JObj kvs) = True"

text \<open>\<^verbatim>\<open>typeof v === 'number'\<close>\<close>

fun is_number :: "jsval \<Rightarrow> bool" where
  "is_number (JNum n) = True"
| "is_number v = False"

text \<open>\<^verbatim>\<open>Array.isArray(v)\<close>\<close>

fun isArray :: "jsval \<Rightarrow> bool" where
  "isArray (JArr xs) = True"
| "isArray v = False"

text \<open>\<^verbatim>\<open>v === null || v === undefined\<close>\<close>

fun nullish :: "jsval \<Rightarrow> bool" where
  "nullish JUndefined = True"
| "nullish JNull = True"
| "nullish v = False"

text \<open>
  \<^verbatim>\<open>v.k\<close> for a property name \<open>k\<close> that is neither an array index nor a name
  the prototypes define (the scripts read \<^verbatim>\<open>type\<close>, \<^verbatim>\<open>features\<close>, \<^verbatim>\<open>lat\<close>,
  \<^verbatim>\<open>lng\<close>, \<^verbatim>\<open>title\<close>, \<^verbatim>\<open>name\<close>, \<^verbatim>\<open>missions\<close>, \<^verbatim>\<open>portals\<close>, \<^verbatim>\<open>location\<close>,
  \<^verbatim>\<open>geometry\<close>, \<^verbatim>\<open>latitude\<close>, \<^verbatim>\<open>longitude\<close>, \<^verbatim>\<open>coordinates\<close>, \<^verbatim>\<open>description\<close>,
  \<^verbatim>\<open>imageUrl\<close>): reading a property of undefined or null throws a TypeError, an
  object gives its own property or undefined, every other value gives undefined.
\<close>

fun getp :: "jsval \<Rightarrow> string \<Rightarrow> error + jsval" where
  "getp JUndefined k = Inl TypeError"
| "getp JNull k = Inl TypeError"
| "getp (JObj kvs) k = (case map_of kvs k of None \<Rightarrow> Inr JUndefined | Some v \<Rightarrow> Inr v)"
| "getp v k = Inr JUndefined"

text \<open>\<^verbatim>\<open>xs[i]\<close> on an array: undefined out of range.\<close>

definition elem :: "jsval list \<Rightarrow> nat \<Rightarrow> jsval" where
  "elem xs i = (if i < length xs then xs ! i else JUndefined)"

text \<open>\<^verbatim>\<open>v[i]\<close> on any value; a string gives its character there.\<close>

fun at_index :: "jsval \<Rightarrow> nat \<Rightarrow> error + jsval" where
  "at_index JUndefined i = Inl TypeError"
| "at_index JNull i = Inl TypeError"
| "at_index (JArr xs) i = Inr (elem xs i)"
| "at_index (JStr s) i = Inr (if i < length s then JStr [s ! i] else JUndefined)"
| "at_index v i = Inr JUndefined"

section \<open>Exceptions and short-circuit operators\<close>

text \<open>Sequencing: an exception thrown by the first computation ends the second.\<close>

definition andThen :: "error + 'a \<Rightarrow> ('a \<Rightarrow> error + 'b) \<Rightarrow> error + 'b" where
  "andThen m f = (case m of Inl e \<Rightarrow> Inl e | Inr x \<Rightarrow> f x)"

text \<open>\<^verbatim>\<open>a || b\<close>: \<open>b\<close> is evaluated only when \<open>a\<close> is falsy.\<close>

definition or_else :: "error + jsval \<Rightarrow> error + jsval \<Rightarrow> error + jsval" where
  "or_else a b = andThen a (\<lambda>x. if truthy x then Inr x else b)"

text \<open>\<^verbatim>\<open>a && b\<close> on conditions: \<open>b\<close> is evaluated only when \<open>a\<close> holds.\<close>

definition and_also :: "error + bool \<Rightarrow> error + bool \<Rightarrow> error + bool" where
  "and_also a b = andThen a (\<lambda>x. if x then b else Inr False)"

text \<open>\<^verbatim>\<open>typeof e === 'number'\<close> and \<^verbatim>\<open>e === 'str'\<close> and \<^verbatim>\<open>Array.isArray(e)\<close> for an expression \<open>e\<close>.\<close>

definition typeof_number :: "error + jsval \<Rightarrow> error + bool" where
  "typeof_number m = andThen m (\<lambda>v. Inr (is_number v))"

definition equals_str :: "error + jsval \<Rightarrow> string \<Rightarrow> error + bool" where
  "equals_str m s = andThen m (\<lambda>v. Inr (v = JStr s))"

definition is_array_of :: "error + jsval \<Rightarrow> error + bool" where
  "is_array_of m = andThen m (\<lambda>v. Inr (isArray v))"

definition is_truthy :: "error + jsval \<Rightarrow> error + bool" where
  "is_truthy m = andThen m (\<lambda>v. Inr (truthy v))"

text \<open>
  \<^verbatim>\<open>xs.forEach((x, i) => ...)\<close> with a callback that updates the array it pushes to:
  the elements in order, each with its index, the state threaded through, an
  exception ending the loop.
\<close>

fun forEach :: "(jsval \<Rightarrow> nat \<Rightarrow> 's \<Rightarrow> error + 's) \<Rightarrow> jsval list \<Rightarrow> nat \<Rightarrow> 's \<Rightarrow> error + 's" where
  "forEach f [] i s = Inr s"
| "forEach f (x # xs) i s = andThen (f x i s) (forEach f xs (Suc i))"

text \<open>
  \<^verbatim>\<open>v.forEach(f)\<close>: only an array has the method; on any other value (truthy here)
  the call throws a TypeError.
\<close>

fun call_forEach :: "jsval \<Rightarrow> (jsval \<Rightarrow> nat \<Rightarrow> 's \<Rightarrow> error + 's) \<Rightarrow> 's \<Rightarrow> error + 's" where
  "call_forEach (JArr xs) f s = forEach f xs 0 s"
| "call_forEach v f s = Inl TypeError"

text \<open>The decimal digits of an index, as a template string writes it.\<close>

fun string_of_nat :: "nat \<Rightarrow> string" where
  "string_of_nat n =
     (if n < 10 then [''0123456789'' ! n]
      else string_of_nat (n div 10) @ [''0123456789'' ! (n mod 10)])"

declare string_of_nat.simps [simp del]

section \<open>build-map.js: extractFeatures\<close>

text \<open>The feature object both loops push.\<close>

definition feature :: "jsval \<Rightarrow> jsval \<Rightarrow> jsval \<Rightarrow> jsval" where
  "feature title lng lat =
     JObj [(''type'', JStr ''Feature''),
           (''properties'', JObj [(''title'', title)]),
           (''geometry'', JObj [(''type'', JStr ''Point''), (''coordinates'', JArr [lng, lat])])]"

text \<open>The callback of the flat point list (lines 29 to 35).\<close>

definition point_step :: "jsval \<Rightarrow> nat \<Rightarrow> jsval list \<Rightarrow> error + jsval list" where
  "point_step p i features =
     andThen (or_else (getp p ''title'') (or_else (getp p ''name'') (Inr (JStr '''')))) (\<lambda>title.
     andThen (getp p ''lng'') (\<lambda>lng.
     andThen (getp p ''lat'') (\<lambda>lat.
       Inr (features @ [feature title lng lat]))))"

text \<open>
  Lines 43 to 52: the location source, then the three branches that set \<^verbatim>\<open>lat\<close> and
  \<^verbatim>\<open>lng\<close>; both stay undefined when no branch is taken. The result is \<open>(lat, lng)\<close>.
\<close>

definition portal_latlng :: "jsval \<Rightarrow> error + (jsval \<times> jsval)" where
  "portal_latlng portal =
     andThen (or_else (getp portal ''location'')
                (or_else (getp portal ''lat'') (getp portal ''geometry''))) (\<lambda>loc.
     andThen (and_also (Inr (truthy loc))
                (and_also (typeof_number (getp loc ''latitude''))
                          (typeof_number (getp loc ''longitude'')))) (\<lambda>c1.
       if c1 then
         andThen (getp loc ''latitude'') (\<lambda>lat.
         andThen (getp loc ''longitude'') (\<lambda>lng. Inr (lat, lng)))
       else
     andThen (and_also (Inr (truthy loc))
                (and_also (typeof_number (getp loc ''lat''))
                          (typeof_number (getp loc ''lng'')))) (\<lambda>c2.
       if c2 then
         andThen (getp loc ''lat'') (\<lambda>lat.
         andThen (getp loc ''lng'') (\<lambda>lng. Inr (lat, lng)))
       else
     andThen (and_also (is_truthy (getp portal ''geometry''))
                (and_also (equals_str (andThen (getp portal ''geometry'') (\<lambda>g. getp g ''type'')) ''Point'')
                          (is_array_of (andThen (getp portal ''geometry'') (\<lambda>g. getp g ''coordinates''))))) (\<lambda>c3.
       if c3 then
         andThen (getp portal ''geometry'') (\<lambda>g.
         andThen (getp g ''coordinates'') (\<lambda>cs.
         andThen (at_index cs 0) (\<lambda>lng.
         andThen (at_index cs 1) (\<lambda>lat. Inr (lat, lng)))))
       else Inr (JUndefined, JUndefined)))))"

text \<open>The callback of the inner loop (lines 42 to 60).\<close>

definition portal_step :: "nat \<Rightarrow> jsval \<Rightarrow> nat \<Rightarrow> jsval list \<Rightarrow> error + jsval list" where
  "portal_step mi portal pidx features =
     andThen (portal_latlng portal) (\<lambda>(lat, lng).
       if is_number lat \<and> is_number lng then
         andThen (or_else (getp portal ''title'')
                    (Inr (JStr (''Portal '' @ string_of_nat (mi + 1) @ ''-'' @ string_of_nat (pidx + 1))))) (\<lambda>title.
           Inr (features @ [feature title lng lat]))
       else Inr features)"

text \<open>The callback of the outer loop (lines 41 to 61).\<close>

definition mission_step :: "jsval \<Rightarrow> nat \<Rightarrow> jsval list \<Rightarrow> error + jsval list" where
  "mission_step mission mi features =
     andThen (or_else (getp mission ''portals'') (Inr (JArr []))) (\<lambda>ps.
       call_forEach ps (portal_step mi) features)"

text \<open>The conditions of lines 23 and 28.\<close>

definition is_feature_collection :: "jsval \<Rightarrow> error + bool" where
  "is_feature_collection json =
     and_also (equals_str (getp json ''type'') ''FeatureCollection'')
              (is_array_of (getp json ''features''))"

definition is_point_list :: "jsval \<Rightarrow> error + bool" where
  "is_point_list json =
     (case json of
        JArr xs \<Rightarrow> and_also (Inr (length xs \<noteq> 0))
                     (typeof_number (andThen (at_index json 0) (\<lambda>x. getp x ''lat'')))
      | _ \<Rightarrow> Inr False)"

definition extractFeatures :: "jsval \<Rightarrow> error + jsval" where
  "extractFeatures json =
     (if \<not> truthy json then Inr (JArr [])
      else
        andThen (is_feature_collection json) (\<lambda>fc.
          if fc then getp json ''features''
          else
        andThen (is_point_list json) (\<lambda>pl.
          if pl then
            andThen (call_forEach json point_step []) (\<lambda>features. Inr (JArr features))
          else
        andThen (is_array_of (getp json ''missions'')) (\<lambda>ms.
          if ms then
            andThen (getp json ''missions'') (\<lambda>missions.
            andThen (call_forEach missions mission_step []) (\<lambda>features. Inr (JArr features)))
          else Inr (JArr [])))))"

section \<open>convert-points-to-csv.js: rows\<close>

text \<open>The first row (line 6).\<close>

definition header :: "jsval list" where
  "header = [JStr ''Mission'', JStr ''Index'', JStr ''Title'', JStr ''Description'',
             JStr ''Latitude'', JStr ''Longitude'', JStr ''Image'']"

text \<open>
  The characters \<^verbatim>\<open>\s\<close> matches and \<^verbatim>\<open>trim\<close> removes, among those with codes below
  256: tab, line feed, vertical tab, form feed, carriage return, space and the
  no-break space.
\<close>

definition is_space :: "char \<Rightarrow> bool" where
  "is_space c = (of_char c \<in> {9, 10, 11, 12, 13, 32, 160 :: nat})"

text \<open>\<^verbatim>\<open>s.replace(/\s+/g, " ")\<close>: every maximal run of white space becomes one space.\<close>

function replace_spaces :: "string \<Rightarrow> string" where
  "replace_spaces [] = []"
| "replace_spaces (c # cs) =
     (if is_space c then CHR '' '' # replace_spaces (dropWhile is_space cs)
      else c # replace_spaces cs)"
  by pat_completeness auto
termination
  by (relation "measure length") (auto simp: length_dropWhile_le le_imp_less_Suc)

text \<open>\<^verbatim>\<open>s.trim()\<close>\<close>

definition trim :: "string \<Rightarrow> string" where
  "trim s = rev (dropWhile is_space (rev (dropWhile is_space s)))"

text \<open>
  \<^verbatim>\<open>d.replace(/\s+/g, " ").trim()\<close> for the value \<open>d\<close> of \<^verbatim>\<open>p.description || ""\<close>: a
  string has the two methods; a truthy value of another type has no callable
  \<^verbatim>\<open>replace\<close>, and the call throws a TypeError.
\<close>

definition description_cell :: "jsval \<Rightarrow> error + jsval" where
  "description_cell d =
     (case d of JStr s \<Rightarrow> Inr (JStr (trim (replace_spaces s))) | _ \<Rightarrow> Inl TypeError)"

text \<open>\<^verbatim>\<open>e?.k\<close>: undefined when \<open>e\<close> is null or undefined.\<close>

definition opt_chain :: "error + jsval \<Rightarrow> string \<Rightarrow> error + jsval" where
  "opt_chain m k = andThen m (\<lambda>v. if nullish v then Inr JUndefined else getp v k)"

text \<open>\<^verbatim>\<open>a ?? b\<close>: \<open>b\<close> only when \<open>a\<close> is null or undefined.\<close>

definition nullish_or :: "error + jsval \<Rightarrow> error + jsval \<Rightarrow> error + jsval" where
  "nullish_or a b = andThen a (\<lambda>x. if nullish x then b else Inr x)"

text \<open>The row of one portal (lines 11 to 19), its cells evaluated from left to right.\<close>

definition csv_row :: "nat \<Rightarrow> jsval \<Rightarrow> nat \<Rightarrow> error + jsval list" where
  "csv_row mi p pidx =
     andThen (or_else (getp p ''title'') (Inr (JStr ''''))) (\<lambda>title.
     andThen (andThen (or_else (getp p ''description'') (Inr (JStr ''''))) description_cell) (\<lambda>description.
     andThen (nullish_or (opt_chain (getp p ''location'') ''latitude'') (Inr (JStr ''''))) (\<lambda>latitude.
     andThen (nullish_or (opt_chain (getp p ''location'') ''longitude'') (Inr (JStr ''''))) (\<lambda>longitude.
     andThen (or_else (getp p ''imageUrl'') (Inr (JStr ''''))) (\<lambda>image.
       Inr [JNum (Finite (real (mi + 1))), JNum (Finite (real (pidx + 1))),
            title, description, latitude, longitude, image])))))"

text \<open>The callbacks of the inner and the outer loop (lines 9 to 21), pushing to \<^verbatim>\<open>rows\<close>.\<close>

definition csv_portal_step :: "nat \<Rightarrow> jsval \<Rightarrow> nat \<Rightarrow> jsval list list \<Rightarrow> error + jsval list list" where
  "csv_portal_step mi p pidx rows = andThen (csv_row mi p pidx) (\<lambda>r. Inr (rows @ [r]))"

definition csv_mission_step :: "jsval \<Rightarrow> nat \<Rightarrow> jsval list list \<Rightarrow> error + jsval list list" where
  "csv_mission_step m mi rows =
     andThen (or_else (getp m ''portals'') (Inr (JArr []))) (\<lambda>ps.
       call_forEach ps (csv_portal_step mi) rows)"

text \<open>The array \<^verbatim>\<open>rows\<close> after line 21, for the parsed file \<open>data\<close>.\<close>

definition rows :: "jsval \<Rightarrow> error + jsval list list" where
  "rows data =
     andThen (or_else (getp data ''missions'') (Inr (JArr []))) (\<lambda>ms.
       call_forEach ms csv_mission_step [header])"

section \<open>Vocabulary of the properties\<close>

text \<open>
  The field \<open>k\<close> of a value as a total function: what \<^verbatim>\<open>v.k\<close> gives when the read
  does not throw, undefined otherwise.
\<close>

definition field :: "jsval \<Rightarrow> string \<Rightarrow> jsval" where
  "field v k = (case getp v k of Inr x \<Rightarrow> x | Inl e \<Rightarrow> JUndefined)"

text \<open>What a step pushes; nothing when it throws.\<close>

definition out_of :: "error + 'a list \<Rightarrow> 'a list" where
  "out_of r = (case r of Inl e \<Rightarrow> [] | Inr out \<Rightarrow> out)"

text \<open>A callback that only pushes to the array it is given.\<close>

definition appending :: "(jsval \<Rightarrow> nat \<Rightarrow> 'a list \<Rightarrow> error + 'a list) \<Rightarrow> bool" where
  "appending f = (\<forall>x i s. f x i s = andThen (f x i []) (\<lambda>new. Inr (s @ new)))"

subsection \<open>The coordinates of a portal, branch by branch\<close>

text \<open>\<^verbatim>\<open>portal.location || portal.lat || portal.geometry\<close> of a portal that is an object.\<close>

definition location_source :: "jsval \<Rightarrow> jsval" where
  "location_source portal =
     (if truthy (field portal ''location'') then field portal ''location''
      else if truthy (field portal ''lat'') then field portal ''lat''
      else field portal ''geometry'')"

text \<open>The source is truthy and carries numbers under both names.\<close>

definition has_pair :: "jsval \<Rightarrow> string \<Rightarrow> string \<Rightarrow> bool" where
  "has_pair loc a b = (truthy loc \<and> is_number (field loc a) \<and> is_number (field loc b))"

text \<open>The portal's own \<^verbatim>\<open>geometry\<close> is a Point whose \<^verbatim>\<open>coordinates\<close> is an array.\<close>

definition point_geometry :: "jsval \<Rightarrow> bool" where
  "point_geometry portal =
     (truthy (field portal ''geometry'') \<and>
      field (field portal ''geometry'') ''type'' = JStr ''Point'' \<and>
      isArray (field (field portal ''geometry'') ''coordinates''))"

definition coordinate :: "jsval \<Rightarrow> nat \<Rightarrow> jsval" where
  "coordinate portal i =
     (case field (field portal ''geometry'') ''coordinates'' of
        JArr cs \<Rightarrow> elem cs i | _ \<Rightarrow> JUndefined)"

text \<open>The three encodings in their order, as \<open>(lat, lng)\<close>.\<close>

definition latlng_of :: "jsval \<Rightarrow> jsval \<times> jsval" where
  "latlng_of portal =
     (let loc = location_source portal in
      if has_pair loc ''latitude'' ''longitude'' then (field loc ''latitude'', field loc ''longitude'')
      else if has_pair loc ''lat'' ''lng'' then (field loc ''lat'', field loc ''lng'')
      else if point_geometry portal then (coordinate portal 1, coordinate portal 0)
      else (JUndefined, JUndefined))"

text \<open>The titles: \<^verbatim>\<open>portal.title || `Portal ${mi+1}-${pi+1}`\<close> and \<^verbatim>\<open>p.title || p.name || ''\<close>.\<close>

definition portal_title :: "nat \<Rightarrow> jsval \<Rightarrow> nat \<Rightarrow> jsval" where
  "portal_title mi portal pidx =
     (if truthy (field portal ''title'') then field portal ''title''
      else JStr (''Portal '' @ string_of_nat (mi + 1) @ ''-'' @ string_of_nat (pidx + 1)))"

definition point_title :: "jsval \<Rightarrow> jsval" where
  "point_title p =
     (if truthy (field p ''title'') then field p ''title''
      else if truthy (field p ''name'') then field p ''name''
      else JStr '''')"

subsection \<open>Traversal\<close>

text \<open>The features the inner callback pushes for one portal: none or one.\<close>

definition emitted :: "nat \<Rightarrow> jsval \<Rightarrow> nat \<Rightarrow> jsval list" where
  "emitted mi portal pidx = out_of (portal_step mi portal pidx [])"

text \<open>The portals of a mission and the missions of an input, empty when the field is no array.\<close>

definition portals_of :: "jsval \<Rightarrow> jsval list" where
  "portals_of mission = (case field mission ''portals'' of JArr ps \<Rightarrow> ps | _ \<Rightarrow> [])"

definition missions_of :: "jsval \<Rightarrow> jsval list" where
  "missions_of json = (case field json ''missions'' of JArr ms \<Rightarrow> ms | _ \<Rightarrow> [])"

text \<open>
  Row-major order: mission 0 portal 0, mission 0 portal 1, ..., mission 1 portal 0, ...;
  each entry is the mission index, the portal index and the portal.
\<close>

definition row_major :: "jsval list \<Rightarrow> (nat \<times> nat \<times> jsval) list" where
  "row_major missions =
     concat (map (\<lambda>(mi, mission). map (\<lambda>(pidx, portal). (mi, pidx, portal))
                                       (enumerate 0 (portals_of mission)))
                 (enumerate 0 missions))"

text \<open>The row the converter pushes for one portal.\<close>

definition written_row :: "nat \<Rightarrow> jsval \<Rightarrow> nat \<Rightarrow> jsval list" where
  "written_row mi p pidx = out_of (csv_row mi p pidx)"

subsection \<open>Inputs on which a property read or a method call throws\<close>

text \<open>
  A mission on which the outer callback of \<^verbatim>\<open>extractFeatures\<close> throws: it is null or
  undefined, or its \<^verbatim>\<open>portals\<close> is truthy and no array, or one of its portals is null or
  undefined.
\<close>

definition bad_portals :: "jsval \<Rightarrow> bool" where
  "bad_portals mission =
     (nullish mission \<or>
      (truthy (field mission ''portals'') \<and> \<not> isArray (field mission ''portals'')) \<or>
      (\<exists>p \<in> set (portals_of mission). nullish p))"

text \<open>
  The same for the converter, where building a row can throw as well: the portal is
  null or undefined, or its \<^verbatim>\<open>description\<close> is truthy and no string (\<^verbatim>\<open>typeof v === 'string'\<close>).
\<close>

fun is_string :: "jsval \<Rightarrow> bool" where
  "is_string (JStr s) = True"
| "is_string v = False"

definition unwritable :: "jsval \<Rightarrow> bool" where
  "unwritable p =
     (nullish p \<or> (truthy (field p ''description'') \<and> \<not> is_string (field p ''description'')))"

definition csv_bad :: "jsval \<Rightarrow> bool" where
  "csv_bad m =
     (nullish m \<or>
      (truthy (field m ''portals'') \<and> \<not> isArray (field m ''portals'')) \<or>
      (\<exists>p \<in> set (portals_of m). unwritable p))"

definition csv_throws :: "jsval \<Rightarrow> bool" where
  "csv_throws data =
     (nullish data \<or>
      (truthy (field data ''missions'') \<and> \<not> isArray (field data ''missions'')) \<or>
      (\<exists>m \<in> set (missions_of data). csv_bad m))"

definition feature_collection :: "jsval \<Rightarrow> bool" where
  "feature_collection json =
     (field json ''type'' = JStr ''FeatureCollection'' \<and> isArray (field json ''features''))"

text \<open>
  The inputs on which \<^verbatim>\<open>extractFeatures\<close> throws: truthy, no FeatureCollection, and
  either a non-empty array whose first element is null or undefined, or a flat point
  list with such an element, or an input with a mission as above.
\<close>

definition throwing_input :: "jsval \<Rightarrow> bool" where
  "throwing_input json =
     (truthy json \<and> \<not> feature_collection json \<and>
      (case json of
         JArr (x # xs) \<Rightarrow> nullish x \<or> (is_number (field x ''lat'') \<and> (\<exists>p \<in> set xs. nullish p))
       | _ \<Rightarrow> \<exists>m \<in> set (missions_of json). bad_portals m))"

text \<open>A feature whose \<^verbatim>\<open>geometry.coordinates\<close> is an array of two numbers.\<close>

definition numeric_coordinates :: "jsval \<Rightarrow> bool" where
  "numeric_coordinates f =
     (case field (field f ''geometry'') ''coordinates'' of
        JArr [lng, lat] \<Rightarrow> is_number lng \<and> is_number lat
      | _ \<Rightarrow> False)"

subsection \<open>Example inputs\<close>

text \<open>
  Three missions: the first with a \<^verbatim>\<open>{latitude, longitude}\<close> portal, a portal without
  coordinates and a titled \<^verbatim>\<open>{lat, lng}\<close> portal, the second with \<^verbatim>\<open>portals: null\<close>,
  the third with a portal whose location carries no numbers and whose geometry is a
  Point.
\<close>

definition portal_a :: jsval where
  "portal_a = JObj [(''location'', JObj [(''latitude'', JNum (Finite (-41.29))),
                                          (''longitude'', JNum (Finite 174.77))])]"

definition portal_b :: jsval where
  "portal_b = JObj [(''location'', JObj [(''lat'', JNum (Finite (-41.30))),
                                          (''lng'', JNum (Finite 174.78))]),
                    (''title'', JStr ''Named'')]"

definition portal_c :: jsval where
  "portal_c = JObj [(''location'', JObj [(''note'', JStr ''x'')]),
                    (''geometry'', JObj [(''type'', JStr ''Point''),
                                         (''coordinates'', JArr [JNum (Finite 174.79),
                                                                 JNum (Finite (-41.31))])])]"


definition example_missions :: "jsval list" where
  "example_missions =
     [JObj [(''portals'', JArr [portal_a, JObj [], portal_b])],
      JObj [(''portals'', JNull)],
      JObj [(''portals'', JArr [portal_c])]]"

definition example_json :: jsval where
  "example_json = JObj [(''missions'', JArr example_missions)]"

definition example_features :: "jsval list" where
  "example_features =
     [feature (JStr ''Portal 1-1'') (JNum (Finite 174.77)) (JNum (Finite (-41.29))),
      feature (JStr ''Named'') (JNum (Finite 174.78)) (JNum (Finite (-41.30))),
      feature (JStr ''Portal 3-1'') (JNum (Finite 174.79)) (JNum (Finite (-41.31)))]"

definition example_data :: jsval where
  "example_data = JObj [(''missions'', JArr [
      JObj [(''portals'', JArr [
        JObj [(''title'', JStr ''A''), (''description'', JStr '' two  words ''),
              (''location'', JObj [(''latitude'', JNum (Finite (-41.29))),
                                   (''longitude'', JNum (Finite 174.77))])],
        JObj [(''imageUrl'', JStr ''u'')]])],
      JObj [],
      JObj [(''portals'', JArr [JObj [(''location'', JObj [(''latitude'', JNull),
                                                           (''longitude'', JNum (Finite 1))])]])]])]"

section \<open>Evaluation of the model\<close>

lemma andThen_Inr [simp]: "andThen (Inr x) f = f x"
  by (simp add: andThen_def)

lemma andThen_Inl [simp]: "andThen (Inl e) f = Inl e"
  by (simp add: andThen_def)

subsection \<open>Property reads\<close>

lemma getp_total: "\<not> nullish v \<Longrightarrow> getp v k = Inr (field v k)"
  by (cases v) (auto simp: field_def split: option.splits)

lemma getp_nullish: "nullish v \<Longrightarrow> getp v k = Inl TypeError"
  by (cases v) auto

lemma truthy_not_nullish: "truthy v \<Longrightarrow> \<not> nullish v"
  by (cases v) auto

lemmas ops_defs = or_else_def and_also_def typeof_number_def equals_str_def is_array_of_def is_truthy_def

subsection \<open>The coordinates of a portal\<close>

lemma source_eval:
  "\<not> nullish p \<Longrightarrow>
   or_else (getp p ''location'') (or_else (getp p ''lat'') (getp p ''geometry''))
   = Inr (location_source p)"
  by (simp add: or_else_def getp_total location_source_def)

lemma pair_eval:
  "and_also (Inr (truthy loc)) (and_also (typeof_number (getp loc a)) (typeof_number (getp loc b)))
   = Inr (has_pair loc a b)"
  by (cases "truthy loc")
     (simp_all add: and_also_def typeof_number_def has_pair_def getp_total truthy_not_nullish)

lemma geometry_eval:
  "\<not> nullish p \<Longrightarrow>
   and_also (is_truthy (getp p ''geometry''))
     (and_also (equals_str (andThen (getp p ''geometry'') (\<lambda>g. getp g ''type'')) ''Point'')
               (is_array_of (andThen (getp p ''geometry'') (\<lambda>g. getp g ''coordinates''))))
   = Inr (point_geometry p)"
  by (cases "truthy (field p ''geometry'')")
     (simp_all add: ops_defs point_geometry_def getp_total truthy_not_nullish)

lemma coords_eval:
  assumes "\<not> nullish p" "point_geometry p"
  shows "andThen (getp p ''geometry'') (\<lambda>g.
         andThen (getp g ''coordinates'') (\<lambda>cs.
         andThen (at_index cs 0) (\<lambda>lng.
         andThen (at_index cs 1) (\<lambda>lat. Inr (lat, lng)))))
         = Inr (coordinate p 1, coordinate p 0)"
proof -
  from assms(2) have t: "truthy (field p ''geometry'')"
    and a: "isArray (field (field p ''geometry'') ''coordinates'')"
    by (simp_all add: point_geometry_def)
  from a obtain cs where cs: "field (field p ''geometry'') ''coordinates'' = JArr cs"
    by (cases "field (field p ''geometry'') ''coordinates''") auto
  show ?thesis
    using assms(1) t cs by (simp add: getp_total truthy_not_nullish coordinate_def)
qed

lemma portal_latlng_nullish: "nullish p \<Longrightarrow> portal_latlng p = Inl TypeError"
  by (simp add: portal_latlng_def getp_nullish or_else_def)

lemma portal_latlng_eval:
  assumes "\<not> nullish p"
  shows "portal_latlng p = Inr (latlng_of p)"
proof -
  have loc: "\<not> nullish (location_source p)" if "has_pair (location_source p) a b" for a b
    using that by (simp add: has_pair_def truthy_not_nullish)
  show ?thesis
  proof (cases "point_geometry p")
    case True
    show ?thesis
      unfolding portal_latlng_def source_eval [OF assms] pair_eval geometry_eval [OF assms]
        coords_eval [OF assms True]
      using assms loc True
      by (simp add: latlng_of_def Let_def getp_total)
  next
    case False
    show ?thesis
      unfolding portal_latlng_def source_eval [OF assms] pair_eval geometry_eval [OF assms]
      using assms loc False
      by (simp add: latlng_of_def Let_def getp_total)
  qed
qed

subsection \<open>Loops of callbacks that push\<close>

lemma out_of_simps [simp]: "out_of (Inr out) = out" "out_of (Inl e) = []"
  by (simp_all add: out_of_def)

lemma error_is_TypeError: "(e::error) = TypeError"
  by (cases e) simp

lemma forEach_appending:
  assumes "appending f"
  shows "forEach f xs i s =
         (if \<exists>(j, x) \<in> set (enumerate i xs). isl (f x j []) then Inl TypeError
          else Inr (s @ concat (map (\<lambda>(j, x). out_of (f x j [])) (enumerate i xs))))"
proof (induction xs arbitrary: i s)
  case Nil
  show ?case by simp
next
  case (Cons x xs)
  have step: "f x i s = andThen (f x i []) (\<lambda>new. Inr (s @ new))"
    using assms unfolding appending_def by blast
  show ?case
  proof (cases "f x i []")
    case (Inl e)
    then show ?thesis using step by (simp add: error_is_TypeError [of e])
  next
    case (Inr new)
    then show ?thesis using step Cons.IH [of "Suc i" "s @ new"] by simp
  qed
qed

subsection \<open>The nested loops of extractFeatures\<close>

lemma portal_step_nullish: "nullish p \<Longrightarrow> portal_step mi p j s = Inl TypeError"
  by (simp add: portal_step_def portal_latlng_nullish)

lemma portal_step_eval:
  assumes "\<not> nullish p"
  shows "portal_step mi p j s =
         Inr (s @ (if is_number (fst (latlng_of p)) \<and> is_number (snd (latlng_of p))
                   then [feature (portal_title mi p j) (snd (latlng_of p)) (fst (latlng_of p))]
                   else []))"
  using assms
  by (cases "latlng_of p")
     (simp add: portal_step_def portal_latlng_eval or_else_def getp_total portal_title_def)

lemma portal_step_appending: "appending (portal_step mi)"
  unfolding appending_def
proof (intro allI)
  fix p j s
  show "portal_step mi p j s = andThen (portal_step mi p j []) (\<lambda>new. Inr (s @ new))"
    by (cases "nullish p") (simp_all add: portal_step_nullish portal_step_eval)
qed

lemma emitted_eval:
  "emitted mi p j =
     (if \<not> nullish p \<and> is_number (fst (latlng_of p)) \<and> is_number (snd (latlng_of p))
      then [feature (portal_title mi p j) (snd (latlng_of p)) (fst (latlng_of p))] else [])"
  by (cases "nullish p") (simp_all add: emitted_def portal_step_nullish portal_step_eval)

lemma portal_step_isl: "isl (portal_step mi p j []) = nullish p"
  by (cases "nullish p") (simp_all add: portal_step_nullish portal_step_eval)

lemma in_set_enumerate_snd: "(\<exists>(j, x) \<in> set (enumerate i xs). P x) = (\<exists>x \<in> set xs. P x)"
  by (induction xs arbitrary: i) auto

lemma mission_step_eval:
  "mission_step m mi s =
     (if bad_portals m then Inl TypeError
      else Inr (s @ concat (map (\<lambda>(j, p). emitted mi p j) (enumerate 0 (portals_of m)))))"
proof (cases "nullish m")
  case True
  then show ?thesis by (simp add: mission_step_def getp_nullish or_else_def bad_portals_def)
next
  case nn: False
  show ?thesis
  proof (cases "truthy (field m ''portals'')")
    case False
    then have "portals_of m = []"
      by (cases "field m ''portals''") (simp_all add: portals_of_def)
    with nn False show ?thesis
      by (simp add: mission_step_def getp_total or_else_def bad_portals_def)
  next
    case t: True
    show ?thesis
    proof (cases "field m ''portals''")
      case (JArr ps)
      have "mission_step m mi s = forEach (portal_step mi) ps 0 s"
        using nn t JArr by (simp add: mission_step_def getp_total or_else_def)
      also have "\<dots> = (if \<exists>(j, x) \<in> set (enumerate 0 ps). isl (portal_step mi x j []) then Inl TypeError
          else Inr (s @ concat (map (\<lambda>(j, x). out_of (portal_step mi x j [])) (enumerate 0 ps))))"
        by (rule forEach_appending [OF portal_step_appending])
      finally show ?thesis
        using nn t JArr
        by (simp add: portal_step_isl in_set_enumerate_snd bad_portals_def portals_of_def emitted_def)
    qed (use nn t in \<open>simp_all add: mission_step_def getp_total or_else_def bad_portals_def\<close>)
  qed
qed

lemma mission_step_appending: "appending mission_step"
  unfolding appending_def by (simp add: mission_step_eval)

subsection \<open>The shape rules\<close>

lemma fc_eval:
  "\<not> nullish json \<Longrightarrow>
   is_feature_collection json =
     Inr (field json ''type'' = JStr ''FeatureCollection'' \<and> isArray (field json ''features''))"
  by (simp add: is_feature_collection_def ops_defs getp_total)

lemma point_list_eval:
  "is_point_list json =
     (case json of
        JArr [] \<Rightarrow> Inr False
      | JArr (x # xs) \<Rightarrow> if nullish x then Inl TypeError else Inr (is_number (field x ''lat''))
      | _ \<Rightarrow> Inr False)"
  by (auto simp: is_point_list_def ops_defs elem_def getp_total getp_nullish
      split: jsval.splits list.splits)

lemma point_step_nullish: "nullish p \<Longrightarrow> point_step p i s = Inl TypeError"
  by (simp add: point_step_def getp_nullish or_else_def)

lemma point_step_eval:
  "\<not> nullish p \<Longrightarrow>
   point_step p i s = Inr (s @ [feature (point_title p) (field p ''lng'') (field p ''lat'')])"
  by (simp add: point_step_def getp_total or_else_def point_title_def)

lemma point_step_appending: "appending point_step"
  unfolding appending_def
proof (intro allI)
  fix p i s
  show "point_step p i s = andThen (point_step p i []) (\<lambda>new. Inr (s @ new))"
    by (cases "nullish p") (simp_all add: point_step_nullish point_step_eval)
qed

lemma point_step_isl: "isl (point_step p i []) = nullish p"
  by (cases "nullish p") (simp_all add: point_step_nullish point_step_eval)

lemma concat_map_enumerate_singleton:
  "concat (map (\<lambda>(j, x). [g x]) (enumerate i xs)) = map g xs"
  by (induction xs arbitrary: i) simp_all

lemma points_loop_eval:
  "forEach point_step xs 0 [] =
     (if \<exists>p \<in> set xs. nullish p then Inl TypeError
      else Inr (map (\<lambda>p. feature (point_title p) (field p ''lng'') (field p ''lat'')) xs))"
proof -
  have eq: "map (\<lambda>(j, x). out_of (point_step x j [])) (enumerate 0 xs)
          = map (\<lambda>(j, x). [feature (point_title x) (field x ''lng'') (field x ''lat'')]) (enumerate 0 xs)"
    if "\<forall>p \<in> set xs. \<not> nullish p"
    using that by (auto simp: point_step_eval in_set_enumerate_eq)
  show ?thesis
    unfolding forEach_appending [OF point_step_appending]
    by (auto simp: point_step_isl in_set_enumerate_snd eq concat_map_enumerate_singleton
        simp del: map_eq_conv)
qed

lemma missions_loop_eval:
  "forEach mission_step ms 0 [] =
     (if \<exists>m \<in> set ms. bad_portals m then Inl TypeError
      else Inr (concat (map (\<lambda>(mi, j, p). emitted mi p j) (row_major ms))))"
proof -
  have isl: "isl (mission_step m mi []) = bad_portals m" for m mi
    by (simp add: mission_step_eval)
  have out: "out_of (mission_step m mi []) =
      (if bad_portals m then []
       else concat (map (\<lambda>(j, p). emitted mi p j) (enumerate 0 (portals_of m))))" for m mi
    by (simp add: mission_step_eval)
  have eq: "concat (map (\<lambda>(mi, m). out_of (mission_step m mi [])) (enumerate i xs))
      = concat (map (\<lambda>(mi, j, p). emitted mi p j)
          (concat (map (\<lambda>(mi, mission). map (\<lambda>(pidx, portal). (mi, pidx, portal))
                                       (enumerate 0 (portals_of mission)))
                 (enumerate i xs))))"
    if "\<forall>m \<in> set xs. \<not> bad_portals m" for xs i
    using that
  proof (induction xs arbitrary: i)
    case Nil
    show ?case by simp
  next
    case (Cons m xs)
    then show ?case by (simp add: out comp_def case_prod_unfold)
  qed
  show ?thesis
    unfolding forEach_appending [OF mission_step_appending]
    by (auto simp: isl in_set_enumerate_snd eq row_major_def)
qed

lemma extract_falsy: "\<not> truthy json \<Longrightarrow> extractFeatures json = Inr (JArr [])"
  by (simp add: extractFeatures_def)

lemma extract_fc:
  assumes "\<not> nullish json" "field json ''type'' = JStr ''FeatureCollection''"
    "field json ''features'' = JArr fs"
  shows "extractFeatures json = Inr (JArr fs)"
proof -
  have "truthy json" using assms by (cases json) (simp_all add: field_def)
  then show ?thesis using assms by (simp add: extractFeatures_def fc_eval getp_total)
qed

lemma fc_array: "is_feature_collection (JArr xs) = Inr False"
  by (simp add: is_feature_collection_def ops_defs)

lemma extract_points:
  "extractFeatures (JArr (x # xs)) =
     (if nullish x then Inl TypeError
      else if is_number (field x ''lat'') then
        (if \<exists>p \<in> set xs. nullish p then Inl TypeError
         else Inr (JArr (map (\<lambda>p. feature (point_title p) (field p ''lng'') (field p ''lat'')) (x # xs))))
      else Inr (JArr []))"
  by (simp add: extractFeatures_def fc_array point_list_eval points_loop_eval is_array_of_def
      del: forEach.simps)

lemma extract_nested:
  assumes "truthy json" "is_feature_collection json = Inr False" "is_point_list json = Inr False"
  shows "extractFeatures json =
     (case field json ''missions'' of
        JArr ms \<Rightarrow>
          if \<exists>m \<in> set ms. bad_portals m then Inl TypeError
          else Inr (JArr (concat (map (\<lambda>(mi, j, p). emitted mi p j) (row_major ms))))
      | _ \<Rightarrow> Inr (JArr []))"
  using assms
  by (simp add: extractFeatures_def is_array_of_def getp_total truthy_not_nullish
      missions_loop_eval split: jsval.splits)

subsection \<open>The output of the nested rule\<close>

lemma numeric_coordinates_feature [simp]:
  "numeric_coordinates (feature t lng lat) = (is_number lng \<and> is_number lat)"
  by (simp add: numeric_coordinates_def feature_def field_def)

lemma emitted_numeric: "f \<in> set (emitted mi p j) \<Longrightarrow> numeric_coordinates f"
  by (simp add: emitted_eval split: if_splits)

lemma emitted_length: "length (emitted mi p j) \<le> 1"
  by (simp add: emitted_eval)

lemma emitted_step:
  "\<not> nullish p \<Longrightarrow> portal_step mi p j [] = Inr (emitted mi p j)"
  by (simp add: emitted_def portal_step_eval)

lemma row_major_not_nullish:
  assumes "\<forall>m \<in> set ms. \<not> bad_portals m" "(mi, j, p) \<in> set (row_major ms)"
  shows "\<not> nullish p"
proof -
  from assms(2) have "mi < length ms" "j < length (portals_of (ms ! mi))"
    "p = portals_of (ms ! mi) ! j"
    by (auto simp: row_major_def in_set_enumerate_eq)
  then have "ms ! mi \<in> set ms" "p \<in> set (portals_of (ms ! mi))"
    by simp_all
  with assms(1) show ?thesis by (auto simp: bad_portals_def)
qed

lemma extract_missions:
  assumes "field json ''missions'' = JArr ms" "is_feature_collection json = Inr False"
  shows "extractFeatures json =
     (if \<exists>m \<in> set ms. bad_portals m then Inl TypeError
      else Inr (JArr (concat (map (\<lambda>(mi, j, p). emitted mi p j) (row_major ms)))))"
proof -
  from assms(1) obtain kvs where json: "json = JObj kvs"
    by (cases json) (simp_all add: field_def)
  then have "truthy json" "is_point_list json = Inr False"
    by (simp_all add: is_point_list_def)
  from extract_nested [OF this(1) assms(2) this(2)] assms(1) show ?thesis by simp
qed

subsection \<open>The examples\<close>

lemma example_extract: "extractFeatures example_json = Inr (JArr example_features)"
  by code_simp

lemma example_fc: "is_feature_collection example_json = Inr False"
  by code_simp

lemma example_pl: "is_point_list example_json = Inr False"
  by code_simp

lemma example_field: "field example_json ''missions'' = JArr example_missions"
  by code_simp

subsection \<open>Lists\<close>

lemma forEach_append:
  "forEach f (xs @ ys) i s = andThen (forEach f xs i s) (forEach f ys (i + length xs))"
proof (induction xs arbitrary: i s)
  case Nil
  show ?case by simp
next
  case (Cons x xs)
  show ?case
    by (cases "f x i s") (simp_all add: Cons.IH)
qed

lemma concat_map_filter_empty:
  "\<forall>x \<in> set xs. \<not> P x \<longrightarrow> g x = [] \<Longrightarrow> concat (map g (filter P xs)) = concat (map g xs)"
  by (induction xs) auto

subsection \<open>The loops of the converter\<close>

lemma csv_row_nullish: "nullish p \<Longrightarrow> csv_row mi p j = Inl TypeError"
  by (simp add: csv_row_def getp_nullish or_else_def)

lemma field_nullish: "nullish v \<Longrightarrow> nullish (field v k)"
  by (cases v) (simp_all add: field_def)

lemma coordinate_cell:
  "\<not> nullish p \<Longrightarrow>
   nullish_or (opt_chain (getp p ''location'') k) (Inr (JStr ''''))
     = Inr (if nullish (field (field p ''location'') k) then JStr ''''
            else field (field p ''location'') k)"
  by (simp add: nullish_or_def opt_chain_def getp_total field_nullish)

lemma description_eval:
  "\<not> nullish p \<Longrightarrow>
   andThen (or_else (getp p ''description'') (Inr (JStr ''''))) description_cell
     = (if truthy (field p ''description'') then description_cell (field p ''description'')
        else Inr (JStr ''''))"
  by (simp add: or_else_def getp_total description_cell_def trim_def)

lemma description_cell_isl: "isl (description_cell d) = (\<not> is_string d)"
  by (cases d) (simp_all add: description_cell_def)

lemma csv_row_eval:
  assumes "\<not> unwritable p"
  shows "\<exists>d. csv_row mi p j =
     Inr [JNum (Finite (real (mi + 1))), JNum (Finite (real (j + 1))),
          (if truthy (field p ''title'') then field p ''title'' else JStr ''''), d,
          (if nullish (field (field p ''location'') ''latitude'') then JStr ''''
           else field (field p ''location'') ''latitude''),
          (if nullish (field (field p ''location'') ''longitude'') then JStr ''''
           else field (field p ''location'') ''longitude''),
          (if truthy (field p ''imageUrl'') then field p ''imageUrl'' else JStr '''')]"
proof -
  from assms have nn: "\<not> nullish p"
    and ds: "truthy (field p ''description'') \<longrightarrow> is_string (field p ''description'')"
    by (simp_all add: unwritable_def)
  from ds have "\<exists>d. (if truthy (field p ''description'')
                      then description_cell (field p ''description'')
                      else Inr (JStr '''')) = Inr d"
    by (cases "field p ''description''") (auto simp: description_cell_def)
  then obtain d where
    d: "andThen (or_else (getp p ''description'') (Inr (JStr ''''))) description_cell = Inr d"
    unfolding description_eval [OF nn] by blast
  show ?thesis
    unfolding csv_row_def d coordinate_cell [OF nn]
    using nn by (simp add: getp_total or_else_def)
qed

lemma csv_row_isl: "isl (csv_row mi p j) = unwritable p"
proof (cases "unwritable p")
  case False
  with csv_row_eval [OF False, of mi j] show ?thesis by auto
next
  case True
  show ?thesis
  proof (cases "nullish p")
    case True
    then show ?thesis by (simp add: csv_row_nullish unwritable_def)
  next
    case nn: False
    with True have "isl (description_cell (field p ''description''))"
      and t: "truthy (field p ''description'')"
      by (simp_all add: unwritable_def description_cell_isl)
    then obtain e where "description_cell (field p ''description'') = Inl e"
      by (cases "description_cell (field p ''description'')") simp_all
    with t have "andThen (or_else (getp p ''description'') (Inr (JStr ''''))) description_cell = Inl e"
      by (simp add: description_eval [OF nn])
    then have "csv_row mi p j = Inl e"
      using nn by (simp add: csv_row_def getp_total or_else_def)
    with True show ?thesis by simp
  qed
qed

lemma csv_row_cells:
  assumes "\<not> unwritable p"
  shows "csv_row mi p j = Inr (written_row mi p j)
    \<and> length (written_row mi p j) = 7
    \<and> written_row mi p j ! 0 = JNum (Finite (real (mi + 1)))
    \<and> written_row mi p j ! 1 = JNum (Finite (real (j + 1)))
    \<and> (nullish (field p ''location'') \<or> nullish (field (field p ''location'') ''latitude'')
         \<longrightarrow> written_row mi p j ! 4 = JStr '''')
    \<and> (nullish (field p ''location'') \<or> nullish (field (field p ''location'') ''longitude'')
         \<longrightarrow> written_row mi p j ! 5 = JStr '''')"
proof -
  from csv_row_eval [OF assms, of mi j] obtain d where
    "csv_row mi p j =
     Inr [JNum (Finite (real (mi + 1))), JNum (Finite (real (j + 1))),
          (if truthy (field p ''title'') then field p ''title'' else JStr ''''), d,
          (if nullish (field (field p ''location'') ''latitude'') then JStr ''''
           else field (field p ''location'') ''latitude''),
          (if nullish (field (field p ''location'') ''longitude'') then JStr ''''
           else field (field p ''location'') ''longitude''),
          (if truthy (field p ''imageUrl'') then field p ''imageUrl'' else JStr '''')]"
    by blast
  then show ?thesis by (auto simp: written_row_def field_nullish)
qed

lemma csv_portal_step_appending: "appending (csv_portal_step mi)"
  unfolding appending_def
proof (intro allI)
  fix p j s
  show "csv_portal_step mi p j s = andThen (csv_portal_step mi p j []) (\<lambda>new. Inr (s @ new))"
    by (cases "csv_row mi p j") (simp_all add: csv_portal_step_def)
qed

lemma csv_portal_step_isl: "isl (csv_portal_step mi p j []) = unwritable p"
  unfolding csv_row_isl [of mi p j, symmetric]
  by (cases "csv_row mi p j") (simp_all add: csv_portal_step_def)

lemma csv_portal_step_out:
  "\<not> unwritable p \<Longrightarrow> out_of (csv_portal_step mi p j []) = [written_row mi p j]"
  using csv_row_cells [of p mi j] by (simp add: csv_portal_step_def)

lemma concat_map_enumerate_single:
  "\<forall>(j, x) \<in> set (enumerate i xs). h j x = [g j x] \<Longrightarrow>
   concat (map (\<lambda>(j, x). h j x) (enumerate i xs)) = map (\<lambda>(j, x). g j x) (enumerate i xs)"
  by (induction xs arbitrary: i) auto

lemma csv_portals_loop:
  "forEach (csv_portal_step mi) ps 0 s =
     (if \<exists>p \<in> set ps. unwritable p then Inl TypeError
      else Inr (s @ map (\<lambda>(j, p). written_row mi p j) (enumerate 0 ps)))"
proof (cases "\<exists>p \<in> set ps. unwritable p")
  case True
  then show ?thesis
    unfolding forEach_appending [OF csv_portal_step_appending]
    by (simp add: csv_portal_step_isl in_set_enumerate_snd)
next
  case False
  then have "\<forall>(j, p) \<in> set (enumerate 0 ps).
      out_of (csv_portal_step mi p j []) = [written_row mi p j]"
    by (auto simp: csv_portal_step_out in_set_enumerate_eq)
  then have "concat (map (\<lambda>(j, x). out_of (csv_portal_step mi x j [])) (enumerate 0 ps))
      = map (\<lambda>(j, p). written_row mi p j) (enumerate 0 ps)"
    by (rule concat_map_enumerate_single)
  with False show ?thesis
    unfolding forEach_appending [OF csv_portal_step_appending]
    by (simp add: csv_portal_step_isl in_set_enumerate_snd)
qed

lemma csv_mission_step_eval:
  "csv_mission_step m mi s =
     (if csv_bad m then Inl TypeError
      else Inr (s @ map (\<lambda>(j, p). written_row mi p j) (enumerate 0 (portals_of m))))"
proof (cases "nullish m")
  case True
  then show ?thesis by (simp add: csv_mission_step_def getp_nullish or_else_def csv_bad_def)
next
  case nn: False
  show ?thesis
  proof (cases "truthy (field m ''portals'')")
    case False
    then have "portals_of m = []"
      by (cases "field m ''portals''") (simp_all add: portals_of_def)
    with nn False show ?thesis
      by (simp add: csv_mission_step_def getp_total or_else_def csv_bad_def)
  next
    case t: True
    show ?thesis
    proof (cases "field m ''portals''")
      case (JArr ps)
      have "csv_mission_step m mi s = forEach (csv_portal_step mi) ps 0 s"
        using nn t JArr by (simp add: csv_mission_step_def getp_total or_else_def)
      then show ?thesis
        unfolding csv_portals_loop using nn JArr by (simp add: csv_bad_def portals_of_def)
    qed (use nn t in \<open>simp_all add: csv_mission_step_def getp_total or_else_def csv_bad_def\<close>)
  qed
qed

lemma csv_mission_step_appending: "appending csv_mission_step"
  unfolding appending_def by (simp add: csv_mission_step_eval)

lemma row_major_map:
  "map (\<lambda>(mi, j, p). g mi p j) (row_major ms)
   = concat (map (\<lambda>(mi, m). map (\<lambda>(j, p). g mi p j) (enumerate 0 (portals_of m))) (enumerate 0 ms))"
  by (simp add: row_major_def map_concat comp_def case_prod_unfold)

lemma csv_missions_loop:
  "forEach csv_mission_step ms 0 s =
     (if \<exists>m \<in> set ms. csv_bad m then Inl TypeError
      else Inr (s @ map (\<lambda>(mi, j, p). written_row mi p j) (row_major ms)))"
proof -
  have isl: "isl (csv_mission_step m mi []) = csv_bad m" for m mi
    by (simp add: csv_mission_step_eval)
  show ?thesis
  proof (cases "\<exists>m \<in> set ms. csv_bad m")
    case True
    then show ?thesis
      unfolding forEach_appending [OF csv_mission_step_appending]
      by (simp add: isl in_set_enumerate_snd)
  next
    case False
    have eq: "map (\<lambda>(mi, m). out_of (csv_mission_step m mi [])) (enumerate 0 ms)
        = map (\<lambda>(mi, m). map (\<lambda>(j, p). written_row mi p j) (enumerate 0 (portals_of m)))
            (enumerate 0 ms)"
    proof (rule map_cong [OF refl])
      fix x assume "x \<in> set (enumerate 0 ms)"
      then have "fst x < length ms" and e: "ms ! fst x = snd x"
        by (auto simp: in_set_enumerate_eq)
      from nth_mem [OF this(1)] e have "snd x \<in> set ms" by simp
      with False have "\<not> csv_bad (snd x)" by blast
      then show "(case x of (mi, m) \<Rightarrow> out_of (csv_mission_step m mi []))
          = (case x of (mi, m) \<Rightarrow> map (\<lambda>(j, p). written_row mi p j) (enumerate 0 (portals_of m)))"
        by (cases x) (simp add: csv_mission_step_eval)
    qed
    from False show ?thesis
      unfolding forEach_appending [OF csv_mission_step_appending] row_major_map eq
      by (simp add: isl in_set_enumerate_snd)
  qed
qed

lemma rows_eval:
  "rows data =
     (if csv_throws data then Inl TypeError
      else Inr (header # map (\<lambda>(mi, pidx, p). written_row mi p pidx) (row_major (missions_of data))))"
proof (cases "nullish data")
  case True
  then show ?thesis by (simp add: rows_def getp_nullish or_else_def csv_throws_def)
next
  case nn: False
  show ?thesis
  proof (cases "truthy (field data ''missions'')")
    case False
    then have "missions_of data = []"
      by (cases "field data ''missions''") (simp_all add: missions_of_def)
    with nn False show ?thesis
      by (simp add: rows_def getp_total or_else_def csv_throws_def row_major_def)
  next
    case t: True
    show ?thesis
    proof (cases "field data ''missions''")
      case (JArr ms)
      have "rows data = forEach csv_mission_step ms 0 [header]"
        using nn t JArr by (simp add: rows_def getp_total or_else_def)
      then show ?thesis
        unfolding csv_missions_loop using nn JArr by (simp add: csv_throws_def missions_of_def)
    qed (use nn t in \<open>simp_all add: rows_def getp_total or_else_def csv_throws_def\<close>)
  qed
qed

lemma row_major_portal:
  assumes "(mi, j, p) \<in> set (row_major ms)"
  shows "\<exists>m \<in> set ms. p \<in> set (portals_of m)"
proof -
  from assms have "mi < length ms" "j < length (portals_of (ms ! mi))"
    "p = portals_of (ms ! mi) ! j"
    by (auto simp: row_major_def in_set_enumerate_eq)
  then have "ms ! mi \<in> set ms" "p \<in> set (portals_of (ms ! mi))"
    by simp_all
  then show ?thesis by blast
qed

lemma example_rows: "rows example_data = Inr [header,
   [JNum (Finite 1), JNum (Finite 1), JStr ''A'', JStr ''two words'',
    JNum (Finite (-41.29)), JNum (Finite 174.77), JStr ''''],
   [JNum (Finite 1), JNum (Finite 2), JStr '''', JStr '''', JStr '''', JStr '''', JStr ''u''],
   [JNum (Finite 3), JNum (Finite 1), JStr '''', JStr '''', JStr '''', JNum (Finite 1), JStr '''']]"
  by code_simp

section \<open>Properties\<close>

subsection \<open>Numeric coordinates\<close>

text \<open>
  Claim C1 does not hold for every input: the flat point list \<^verbatim>\<open>[{lat: 1}]\<close> is answered
  with a feature whose coordinates are \<^verbatim>\<open>[undefined, 1]\<close>.
\<close>

theorem flat_list_missing_coordinate:
  "extractFeatures (JArr [JObj [(''lat'', JNum (Finite 1))]])
     = Inr (JArr [feature (JStr '''') JUndefined (JNum (Finite 1))])
   \<and> \<not> numeric_coordinates (feature (JStr '''') JUndefined (JNum (Finite 1)))"
  by (simp add: extract_points field_def point_title_def)

text \<open>
  Claim C1, for the inputs that neither the FeatureCollection rule nor the flat point
  list rule answers: every feature of the returned sequence has coordinates
  \<^verbatim>\<open>[lng, lat]\<close> that are both numbers.
\<close>

theorem nested_features_numeric:
  assumes "extractFeatures json = Inr (JArr fs)"
    and "is_feature_collection json \<noteq> Inr True"
    and "is_point_list json \<noteq> Inr True"
  shows "\<forall>f \<in> set fs. numeric_coordinates f"
proof (cases "truthy json")
  case False
  with assms(1) show ?thesis by (simp add: extract_falsy)
next
  case True
  then have fc: "is_feature_collection json = Inr False"
    using assms(2) by (simp add: fc_eval truthy_not_nullish)
  have pl: "is_point_list json = Inr False"
  proof (cases "is_point_list json")
    case (Inl e)
    then have "extractFeatures json = Inl e"
      using True fc by (simp add: extractFeatures_def)
    with assms(1) show ?thesis by simp
  next
    case (Inr b)
    with assms(3) show ?thesis by simp
  qed
  show ?thesis
  proof (cases "field json ''missions''")
    case (JArr ms)
    from assms(1) extract_missions [OF JArr fc]
    have "fs = concat (map (\<lambda>(mi, j, p). emitted mi p j) (row_major ms))"
      by (simp split: if_splits)
    then show ?thesis by (auto dest: emitted_numeric)
  qed (use assms(1) extract_nested [OF True fc pl] in simp_all)
qed

text \<open>The example input satisfies the hypotheses, and its three features are numeric.\<close>

theorem nested_features_numeric_witness:
  "extractFeatures example_json = Inr (JArr example_features)
   \<and> is_feature_collection example_json \<noteq> Inr True
   \<and> is_point_list example_json \<noteq> Inr True
   \<and> list_all numeric_coordinates example_features"
proof -
  have h2: "is_feature_collection example_json \<noteq> Inr True" by (simp add: example_fc)
  have h3: "is_point_list example_json \<noteq> Inr True" by (simp add: example_pl)
  from nested_features_numeric [OF example_extract h2 h3] example_extract h2 h3
  show ?thesis unfolding list_all_iff by blast
qed

subsection \<open>Exceptions\<close>

text \<open>
  Claim C2 does not hold for every input: on the array \<^verbatim>\<open>[null]\<close> the read of
  \<^verbatim>\<open>json[0].lat\<close> throws a TypeError.
\<close>

theorem null_element_throws:
  "extractFeatures (JArr [JNull]) = Inl TypeError"
  by (simp add: extract_points)

text \<open>
  Claim C2, with the inputs that throw set apart: \<^verbatim>\<open>extractFeatures\<close> returns a
  sequence exactly when the input is none of \<open>throwing_input\<close>, it throws a TypeError
  on those, and for null, undefined and every other falsy input it returns the empty
  sequence.
\<close>

theorem returns_unless_throwing_input:
  "((\<exists>fs. extractFeatures json = Inr (JArr fs)) = (\<not> throwing_input json))
   \<and> (throwing_input json \<longrightarrow> extractFeatures json = Inl TypeError)
   \<and> (nullish json \<longrightarrow> extractFeatures json = Inr (JArr []))
   \<and> (\<not> truthy json \<longrightarrow> extractFeatures json = Inr (JArr []))"
proof -
  have nul: "extractFeatures json = Inr (JArr [])" if "nullish json"
    using that by (cases json) (simp_all add: extract_falsy)
  have main: "extractFeatures json = (if throwing_input json then Inl TypeError
      else Inr (JArr (case extractFeatures json of Inr (JArr fs) \<Rightarrow> fs | _ \<Rightarrow> [])))"
  proof (cases "truthy json")
    case False
    then show ?thesis by (simp add: extract_falsy throwing_input_def)
  next
    case True
    note nn = truthy_not_nullish [OF True]
    show ?thesis
    proof (cases "feature_collection json")
      case fc: True
      then obtain fs where "field json ''features'' = JArr fs"
        by (cases "field json ''features''") (simp_all add: feature_collection_def)
      with fc nn have "extractFeatures json = Inr (JArr fs)"
        by (simp add: extract_fc feature_collection_def)
      with fc show ?thesis by (simp add: throwing_input_def)
    next
      case nfc: False
      then have fc: "is_feature_collection json = Inr False"
        using nn by (simp add: fc_eval feature_collection_def)
      show ?thesis
      proof (cases "\<exists>x xs. json = JArr (x # xs)")
        case True
        then obtain x xs where json: "json = JArr (x # xs)" by blast
        show ?thesis
          unfolding json extract_points
          using nfc json by (simp add: throwing_input_def)
      next
        case False
        then have pl: "is_point_list json = Inr False"
          by (auto simp: point_list_eval split: jsval.splits list.splits)
        have th: "throwing_input json = (\<exists>m \<in> set (missions_of json). bad_portals m)"
          using True nfc False
          by (auto simp: throwing_input_def split: jsval.splits list.splits)
        show ?thesis
          unfolding th extract_nested [OF True fc pl]
          by (simp add: missions_of_def split: jsval.splits)
      qed
    qed
  qed
  have "(\<exists>fs. extractFeatures json = Inr (JArr fs)) = (\<not> throwing_input json)"
    by (subst main) auto
  moreover have "throwing_input json \<longrightarrow> extractFeatures json = Inl TypeError"
    by (subst main) auto
  ultimately show ?thesis using nul extract_falsy [of json] by blast
qed

text \<open>
  The example input returns; a flat point list with a null element throws; null,
  undefined and 0 give the empty sequence.
\<close>

theorem returns_unless_throwing_input_witness:
  "\<not> throwing_input example_json
   \<and> (\<exists>fs. extractFeatures example_json = Inr (JArr fs))
   \<and> throwing_input (JArr [JObj [(''lat'', JNum (Finite 1))], JNull])
   \<and> extractFeatures (JArr [JObj [(''lat'', JNum (Finite 1))], JNull]) = Inl TypeError
   \<and> nullish JNull \<and> extractFeatures JNull = Inr (JArr [])
   \<and> nullish JUndefined \<and> extractFeatures JUndefined = Inr (JArr [])
   \<and> \<not> truthy (JNum (Finite 0)) \<and> extractFeatures (JNum (Finite 0)) = Inr (JArr [])"
proof -
  have a: "\<not> throwing_input example_json" by code_simp
  have b: "throwing_input (JArr [JObj [(''lat'', JNum (Finite 1))], JNull])" by code_simp
  show ?thesis
    using a b returns_unless_throwing_input [of example_json]
      returns_unless_throwing_input [of "JArr [JObj [(''lat'', JNum (Finite 1))], JNull]"]
      returns_unless_throwing_input [of JNull]
      returns_unless_throwing_input [of JUndefined]
      returns_unless_throwing_input [of "JNum (Finite 0)"]
    by simp
qed

subsection \<open>GeoJSON passthrough\<close>

text \<open>
  Claim C3: an object whose \<^verbatim>\<open>type\<close> is the string "FeatureCollection" and whose
  \<^verbatim>\<open>features\<close> is an array is answered with that array itself, whatever its elements
  are and whatever else the object holds: the rule comes before the other two.
\<close>

theorem feature_collection_passthrough:
  assumes "getp (JObj kvs) ''type'' = Inr (JStr ''FeatureCollection'')"
    and "getp (JObj kvs) ''features'' = Inr (JArr fs)"
  shows "extractFeatures (JObj kvs) = Inr (JArr fs)"
  using assms
  by (simp add: extractFeatures_def is_feature_collection_def and_also_def equals_str_def
      is_array_of_def)

text \<open>
  An object that is a FeatureCollection and has a \<^verbatim>\<open>missions\<close> array as well, with
  elements that are no features: the array comes back as it is.
\<close>

theorem feature_collection_passthrough_witness:
  "extractFeatures (JObj [(''type'', JStr ''FeatureCollection''),
                          (''missions'', JArr [JNull]),
                          (''features'', JArr [JNull, JNum (Finite 3), JObj [(''lat'', JStr ''x'')]])])
   = Inr (JArr [JNull, JNum (Finite 3), JObj [(''lat'', JStr ''x'')]])"
  using feature_collection_passthrough
    [of "[(''type'', JStr ''FeatureCollection''),
          (''missions'', JArr [JNull]),
          (''features'', JArr [JNull, JNum (Finite 3), JObj [(''lat'', JStr ''x'')]])]"
        "[JNull, JNum (Finite 3), JObj [(''lat'', JStr ''x'')]]"]
  by simp

subsection \<open>Dropped portals\<close>

text \<open>
  Claim C4 does not hold for every entry of a \<^verbatim>\<open>portals\<close> array: a null entry yields no
  coordinates either, and reading its \<^verbatim>\<open>location\<close> throws a TypeError, so that the call
  ends without a result and the features of the portals around it are lost.
\<close>

theorem null_portal_halts:
  "extractFeatures (JObj [(''missions'', JArr [JObj [(''portals'',
       JArr [portal_a, JNull, portal_b])]])])
     = Inl TypeError
   \<and> extractFeatures (JObj [(''missions'', JArr [JObj [(''portals'',
       JArr [portal_a, portal_b])]])])
     = Inr (JArr (take 2 example_features))"
  by code_simp

text \<open>
  Claim C4, for a portal that is not null or undefined: when no branch resolves \<open>lat\<close>
  and \<open>lng\<close> to two numbers, the callback returns and leaves the features as they are;
  the loop over the portals of its mission goes on behind it with the next index; and
  the whole call, unless a null element or a non-array \<^verbatim>\<open>portals\<close> elsewhere makes it
  throw, returns what the other portals of all the missions push, in their order.
\<close>

theorem dropped_portal_does_not_halt:
  assumes "\<not> nullish p"
    and "\<forall>lat lng. portal_latlng p = Inr (lat, lng) \<longrightarrow> \<not> (is_number lat \<and> is_number lng)"
  shows "portal_step mi p j features = Inr features
    \<and> forEach (portal_step mi) (before @ p # after) j0 acc
        = andThen (forEach (portal_step mi) before j0 acc)
            (forEach (portal_step mi) after (j0 + length before + 1))
    \<and> (is_feature_collection json = Inr False \<and> field json ''missions'' = JArr missions
        \<longrightarrow> extractFeatures json =
             (if \<exists>m \<in> set missions. bad_portals m then Inl TypeError
              else Inr (JArr (concat (map (\<lambda>(mi, j, q). emitted mi q j)
                     (filter (\<lambda>(mi, j, q). q \<noteq> p) (row_major missions)))))))"
proof -
  have "portal_latlng p = Inr (fst (latlng_of p), snd (latlng_of p))"
    using assms(1) by (simp add: portal_latlng_eval)
  with assms(2) have no: "\<not> (is_number (fst (latlng_of p)) \<and> is_number (snd (latlng_of p)))"
    by blast
  have step: "portal_step mi p j features = Inr features" for mi j features
    using assms(1) no by (simp add: portal_step_eval)
  have loop: "forEach (portal_step mi) (before @ p # after) j0 acc
        = andThen (forEach (portal_step mi) before j0 acc)
            (forEach (portal_step mi) after (j0 + length before + 1))"
  proof (cases "forEach (portal_step mi) before j0 acc")
    case (Inl e)
    then show ?thesis by (simp add: forEach_append)
  next
    case (Inr s)
    then show ?thesis by (simp add: forEach_append step)
  qed
  have none: "emitted mi p j = []" for mi j
    by (simp add: emitted_def step)
  have others: "concat (map (\<lambda>(mi, j, q). emitted mi q j)
                    (filter (\<lambda>(mi, j, q). q \<noteq> p) (row_major missions)))
      = concat (map (\<lambda>(mi, j, q). emitted mi q j) (row_major missions))"
    by (rule concat_map_filter_empty) (auto simp: none)
  have top: "extractFeatures json =
             (if \<exists>m \<in> set missions. bad_portals m then Inl TypeError
              else Inr (JArr (concat (map (\<lambda>(mi, j, q). emitted mi q j)
                     (filter (\<lambda>(mi, j, q). q \<noteq> p) (row_major missions))))))"
    if "is_feature_collection json = Inr False" "field json ''missions'' = JArr missions"
    unfolding others by (rule extract_missions [OF that(2) that(1)])
  from step loop top show ?thesis by blast
qed

text \<open>The empty portal \<^verbatim>\<open>{}\<close> between two portals with coordinates, in the example input.\<close>

theorem dropped_portal_does_not_halt_witness:
  "\<not> nullish (JObj [])
   \<and> portal_latlng (JObj []) = Inr (JUndefined, JUndefined)
   \<and> \<not> (is_number JUndefined \<and> is_number JUndefined)
   \<and> portal_step 0 (JObj []) 1 [hd example_features] = Inr [hd example_features]
   \<and> forEach (portal_step 0) ([portal_a] @ JObj [] # [portal_b]) 0 []
        = andThen (forEach (portal_step 0) [portal_a] 0 [])
            (forEach (portal_step 0) [portal_b] (0 + length [portal_a] + 1))
   \<and> forEach (portal_step 0) ([portal_a] @ JObj [] # [portal_b]) 0 []
        = Inr (take 2 example_features)
   \<and> filter (\<lambda>(mi, j, q). q \<noteq> JObj []) (row_major example_missions)
        = [(0, 0, portal_a), (0, 2, portal_b), (2, 0, portal_c)]
   \<and> extractFeatures example_json
        = Inr (JArr (concat (map (\<lambda>(mi, j, q). emitted mi q j)
                    (filter (\<lambda>(mi, j, q). q \<noteq> JObj []) (row_major example_missions)))))
   \<and> extractFeatures example_json = Inr (JArr example_features)"
proof -
  have h0: "\<not> nullish (JObj [])" by simp
  have h1: "portal_latlng (JObj []) = Inr (JUndefined, JUndefined)" by code_simp
  have h2: "\<not> (is_number JUndefined \<and> is_number JUndefined)" by simp
  from h1 h2 have h3: "\<forall>lat lng. portal_latlng (JObj []) = Inr (lat, lng)
      \<longrightarrow> \<not> (is_number lat \<and> is_number lng)"
    by simp
  have ok: "\<not> (\<exists>m \<in> set example_missions. bad_portals m)" by code_simp
  have l: "forEach (portal_step 0) ([portal_a] @ JObj [] # [portal_b]) 0 []
        = Inr (take 2 example_features)" by code_simp
  have f: "filter (\<lambda>(mi, j, q). q \<noteq> JObj []) (row_major example_missions)
        = [(0, 0, portal_a), (0, 2, portal_b), (2, 0, portal_c)]" by code_simp
  from dropped_portal_does_not_halt [OF h0 h3, of 0 1 "[hd example_features]" "[portal_a]"
      "[portal_b]" 0 "[]" example_json example_missions]
    h0 h1 h2 example_fc example_field example_extract ok l f
  show ?thesis by simp
qed

subsection \<open>Flat point list\<close>

text \<open>
  Claim C5 does not hold as stated: a title that is present and empty gives way to the
  name, and a null element behind the first one makes the call throw.
\<close>

theorem flat_list_counterexample:
  "extractFeatures (JArr [JObj [(''lat'', JNum (Finite 1)), (''lng'', JNum (Finite 2)),
                                (''title'', JStr ''''), (''name'', JStr ''N'')]])
     = Inr (JArr [feature (JStr ''N'') (JNum (Finite 2)) (JNum (Finite 1))])
   \<and> extractFeatures (JArr [JObj [(''lat'', JNum (Finite 1)), (''lng'', JNum (Finite 2))], JNull])
     = Inl TypeError"
  by (simp add: extract_points field_def point_title_def)

text \<open>
  Claim C5, for a flat point list without null or undefined elements: one feature for
  each element, in order, none skipped, with coordinates \<^verbatim>\<open>[p.lng, p.lat]\<close> as they
  are, and with the title \<^verbatim>\<open>p.title\<close> if it is truthy, else \<^verbatim>\<open>p.name\<close> if it is
  truthy, else the empty string.
\<close>

theorem flat_list_one_feature_per_element:
  assumes "is_number (field x ''lat'')" and "\<forall>p \<in> set xs. \<not> nullish p"
  shows "extractFeatures (JArr (x # xs))
     = Inr (JArr (map (\<lambda>p. feature (point_title p) (field p ''lng'') (field p ''lat'')) (x # xs)))"
proof -
  have "\<not> nullish x"
    using assms(1) by (cases x) (simp_all add: field_def)
  with assms show ?thesis by (simp add: extract_points)
qed

text \<open>
  Three points, the second without a title and the third without coordinates: three
  features, the last with coordinates \<^verbatim>\<open>[undefined, undefined]\<close>.
\<close>

theorem flat_list_one_feature_per_element_witness:
  "is_number (field (JObj [(''lat'', JNum (Finite (-41.29))), (''lng'', JNum (Finite 174.77)),
                           (''title'', JStr ''A'')]) ''lat'')
   \<and> list_all (\<lambda>p. \<not> nullish p)
         [JObj [(''lat'', JNum (Finite (-41.30))), (''lng'', JNum (Finite 174.78))],
          JObj [(''name'', JStr ''B'')]]
   \<and> extractFeatures (JArr [JObj [(''lat'', JNum (Finite (-41.29))), (''lng'', JNum (Finite 174.77)),
                                  (''title'', JStr ''A'')],
                            JObj [(''lat'', JNum (Finite (-41.30))), (''lng'', JNum (Finite 174.78))],
                            JObj [(''name'', JStr ''B'')]])
     = Inr (JArr [feature (JStr ''A'') (JNum (Finite 174.77)) (JNum (Finite (-41.29))),
                  feature (JStr '''') (JNum (Finite 174.78)) (JNum (Finite (-41.30))),
                  feature (JStr ''B'') JUndefined JUndefined])"
proof -
  have h1: "is_number (field (JObj [(''lat'', JNum (Finite (-41.29))), (''lng'', JNum (Finite 174.77)),
                           (''title'', JStr ''A'')]) ''lat'')"
    by (simp add: field_def)
  have h2: "\<forall>p \<in> set [JObj [(''lat'', JNum (Finite (-41.30))), (''lng'', JNum (Finite 174.78))],
                   JObj [(''name'', JStr ''B'')]]. \<not> nullish p"
    by simp
  from flat_list_one_feature_per_element [OF h1 h2] h1 h2
  show ?thesis by (simp add: field_def point_title_def)
qed

subsection \<open>Coordinate encodings\<close>




subsection \<open>Fields that are no arrays\<close>

text \<open>
  Claim C7 does not hold for every value of \<^verbatim>\<open>portals\<close>: a truthy value that is no
  array, here the number 5, has no \<^verbatim>\<open>forEach\<close>, and the call throws a TypeError.
\<close>

theorem non_array_portals_throws:
  "extractFeatures (JObj [(''missions'', JArr [JObj [(''portals'', JNum (Finite 5))]])])
   = Inl TypeError"
  by code_simp

text \<open>
  Claim C7, for the values the guard \<^verbatim>\<open>mission.portals || []\<close> covers: an object that is
  no FeatureCollection and whose \<^verbatim>\<open>missions\<close> is no array is answered with the empty
  sequence, and a mission whose \<^verbatim>\<open>portals\<close> is falsy (null, false, 0, NaN, the empty
  string, or absent) pushes nothing and does not throw.
\<close>

theorem non_array_missions_falsy_portals:
  "(is_feature_collection (JObj kvs) = Inr False \<and> \<not> isArray (field (JObj kvs) ''missions'')
      \<longrightarrow> extractFeatures (JObj kvs) = Inr (JArr []))
   \<and> (\<not> nullish mission \<and> \<not> truthy (field mission ''portals'')
      \<longrightarrow> mission_step mission mi features = Inr features)"
proof -
  have a: "extractFeatures (JObj kvs) = Inr (JArr [])"
    if "is_feature_collection (JObj kvs) = Inr False" "\<not> isArray (field (JObj kvs) ''missions'')"
  proof -
    have "truthy (JObj kvs)" "is_point_list (JObj kvs) = Inr False"
      by (simp_all add: is_point_list_def)
    from extract_nested [OF this(1) that(1) this(2)] that(2)
    show ?thesis by (simp split: jsval.splits)
  qed
  have b: "mission_step mission mi features = Inr features"
    if "\<not> nullish mission" "\<not> truthy (field mission ''portals'')"
    using that by (simp add: mission_step_def getp_total or_else_def)
  from a b show ?thesis by blast
qed

text \<open>A \<^verbatim>\<open>missions\<close> that is a string, and a mission with \<^verbatim>\<open>portals: 0\<close>.\<close>

theorem non_array_missions_falsy_portals_witness:
  "is_feature_collection (JObj [(''missions'', JStr ''none'')]) = Inr False
   \<and> \<not> isArray (field (JObj [(''missions'', JStr ''none'')]) ''missions'')
   \<and> extractFeatures (JObj [(''missions'', JStr ''none'')]) = Inr (JArr [])
   \<and> \<not> nullish (JObj [(''portals'', JNum (Finite 0))])
   \<and> \<not> truthy (field (JObj [(''portals'', JNum (Finite 0))]) ''portals'')
   \<and> mission_step (JObj [(''portals'', JNum (Finite 0))]) 1 example_features
       = Inr example_features"
proof -
  have h1: "is_feature_collection (JObj [(''missions'', JStr ''none'')]) = Inr False"
    by code_simp
  have h2: "\<not> isArray (field (JObj [(''missions'', JStr ''none'')]) ''missions'')"
    by code_simp
  have h3: "\<not> nullish (JObj [(''portals'', JNum (Finite 0))])" by simp
  have h4: "\<not> truthy (field (JObj [(''portals'', JNum (Finite 0))]) ''portals'')"
    by code_simp
  from non_array_missions_falsy_portals
    [of "[(''missions'', JStr ''none'')]" "JObj [(''portals'', JNum (Finite 0))]" 1 example_features]
    h1 h2 h3 h4
  show ?thesis by blast
qed

subsection \<open>Order of the output\<close>

text \<open>
  Claim C8: when the nested rule answers, the call returns, unless a null element or a
  non-array \<^verbatim>\<open>portals\<close> makes it throw, the row-major traversal of the missions and
  their portals with each portal replaced by what it pushes, which is one feature or
  none; so the dropped portals are left out and the others keep their order.
\<close>

theorem output_is_row_major:
  assumes "is_feature_collection json = Inr False"
    and "field json ''missions'' = JArr missions"
  shows "extractFeatures json =
      (if \<exists>m \<in> set missions. bad_portals m then Inl TypeError
       else Inr (JArr (concat (map (\<lambda>(mi, pidx, portal). emitted mi portal pidx)
                                   (row_major missions)))))
    \<and> ((\<forall>m \<in> set missions. \<not> bad_portals m) \<longrightarrow>
        (\<forall>(mi, pidx, portal) \<in> set (row_major missions).
           portal_step mi portal pidx [] = Inr (emitted mi portal pidx)
           \<and> length (emitted mi portal pidx) \<le> 1))"
proof -
  have "portal_step mi portal pidx [] = Inr (emitted mi portal pidx)"
    if "\<forall>m \<in> set missions. \<not> bad_portals m" "(mi, pidx, portal) \<in> set (row_major missions)"
    for mi pidx portal
    using row_major_not_nullish [OF that] by (rule emitted_step)
  with extract_missions [OF assms(2) assms(1)] show ?thesis
    by (auto simp: emitted_length [simplified])
qed

text \<open>The traversal of the example input and its output.\<close>

theorem output_is_row_major_witness:
  "is_feature_collection example_json = Inr False
   \<and> field example_json ''missions'' = JArr example_missions
   \<and> list_all (\<lambda>m. \<not> bad_portals m) example_missions
   \<and> row_major example_missions
       = [(0, 0, portal_a), (0, 1, JObj []), (0, 2, portal_b), (2, 0, portal_c)]
   \<and> extractFeatures example_json
       = Inr (JArr (concat (map (\<lambda>(mi, pidx, portal). emitted mi portal pidx)
                                (row_major example_missions))))
   \<and> concat (map (\<lambda>(mi, pidx, portal). emitted mi portal pidx) (row_major example_missions))
       = example_features
   \<and> list_all (\<lambda>(mi, pidx, portal).
          portal_step mi portal pidx [] = Inr (emitted mi portal pidx)
          \<and> length (emitted mi portal pidx) \<le> 1) (row_major example_missions)"
proof -
  have r: "row_major example_missions
       = [(0, 0, portal_a), (0, 1, JObj []), (0, 2, portal_b), (2, 0, portal_c)]"
    by code_simp
  have ok: "list_all (\<lambda>m. \<not> bad_portals m) example_missions"
    by code_simp
  then have ok': "\<forall>m \<in> set example_missions. \<not> bad_portals m"
    by (simp add: list_all_iff)
  have e: "concat (map (\<lambda>(mi, pidx, portal). emitted mi portal pidx) (row_major example_missions))
       = example_features"
    by code_simp
  from output_is_row_major [OF example_fc example_field] ok ok'
  have "extractFeatures example_json
       = Inr (JArr (concat (map (\<lambda>(mi, pidx, portal). emitted mi portal pidx)
                                (row_major example_missions))))"
    and "\<forall>(mi, pidx, portal) \<in> set (row_major example_missions).
           portal_step mi portal pidx [] = Inr (emitted mi portal pidx)
           \<and> length (emitted mi portal pidx) \<le> 1"
    by simp_all
  with example_fc example_field ok r e show ?thesis
    unfolding list_all_iff by blast
qed

subsection \<open>Geometry fallback\<close>

text \<open>
  Claim C9: a portal with a truthy \<^verbatim>\<open>location\<close> that carries neither pair of numbers,
  and with a \<^verbatim>\<open>geometry\<close> of type Point whose \<^verbatim>\<open>coordinates\<close> array starts with two
  numbers, pushes a feature with these two coordinates: the geometry is read from the
  portal although the location was the selected source. So \<^verbatim>\<open>extractFeatures\<close>, on an
  input of the nested shape that holds the portal, returns a sequence with this feature
  in it, unless a null element or a non-array \<^verbatim>\<open>portals\<close> makes it throw; on the input
  with this portal alone the feature is the whole sequence.
\<close>

theorem geometry_fallback_on_portal:
  assumes "\<not> nullish portal"
    and "truthy (field portal ''location'')"
    and "\<not> (is_number (field (field portal ''location'') ''latitude'')
           \<and> is_number (field (field portal ''location'') ''longitude''))"
    and "\<not> (is_number (field (field portal ''location'') ''lat'')
           \<and> is_number (field (field portal ''location'') ''lng''))"
    and "truthy (field portal ''geometry'')"
    and "field (field portal ''geometry'') ''type'' = JStr ''Point''"
    and "field (field portal ''geometry'') ''coordinates'' = JArr cs"
    and "is_number (elem cs 0)" and "is_number (elem cs 1)"
  shows "portal_step mi portal pidx features
       = Inr (features @ [feature (portal_title mi portal pidx) (elem cs 0) (elem cs 1)])
    \<and> extractFeatures (JObj [(''missions'', JArr [JObj [(''portals'', JArr [portal])]])])
       = Inr (JArr [feature (portal_title 0 portal 0) (elem cs 0) (elem cs 1)])
    \<and> (is_feature_collection json = Inr False \<and> field json ''missions'' = JArr missions
        \<and> (mi, pidx, portal) \<in> set (row_major missions)
        \<longrightarrow> extractFeatures json =
             (if \<exists>m \<in> set missions. bad_portals m then Inl TypeError
              else Inr (JArr (concat (map (\<lambda>(mi, j, q). emitted mi q j) (row_major missions)))))
            \<and> feature (portal_title mi portal pidx) (elem cs 0) (elem cs 1)
                \<in> set (concat (map (\<lambda>(mi, j, q). emitted mi q j) (row_major missions))))"
proof -
  have loc: "location_source portal = field portal ''location''"
    using assms(2) by (simp add: location_source_def)
  have ll: "latlng_of portal = (elem cs 1, elem cs 0)"
    using assms(3-7)
    by (auto simp: latlng_of_def loc has_pair_def point_geometry_def coordinate_def)
  have step: "portal_step mi portal pidx features
       = Inr (features @ [feature (portal_title mi portal pidx) (elem cs 0) (elem cs 1)])"
    for mi pidx features
    using ll assms(1,8,9) by (simp add: portal_step_eval)
  have em: "emitted mi portal pidx = [feature (portal_title mi portal pidx) (elem cs 0) (elem cs 1)]"
    for mi pidx
    by (simp add: emitted_def step)
  let ?single = "JObj [(''missions'', JArr [JObj [(''portals'', JArr [portal])]])]"
  have fc1: "is_feature_collection ?single = Inr False"
    by (simp add: fc_eval field_def)
  have fm1: "field ?single ''missions'' = JArr [JObj [(''portals'', JArr [portal])]]"
    by (simp add: field_def)
  have po: "portals_of (JObj [(''portals'', JArr [portal])]) = [portal]"
    by (simp add: portals_of_def field_def)
  have nb: "\<not> bad_portals (JObj [(''portals'', JArr [portal])])"
    using assms(1) by (simp add: bad_portals_def po) (simp add: field_def)
  have rm: "row_major [JObj [(''portals'', JArr [portal])]] = [(0, 0, portal)]"
    by (simp add: row_major_def po enumerate_simps)
  have single: "extractFeatures ?single
       = Inr (JArr [feature (portal_title 0 portal 0) (elem cs 0) (elem cs 1)])"
    unfolding extract_missions [OF fm1 fc1] using nb by (simp add: rm em)
  have top: "extractFeatures json =
             (if \<exists>m \<in> set missions. bad_portals m then Inl TypeError
              else Inr (JArr (concat (map (\<lambda>(mi, j, q). emitted mi q j) (row_major missions)))))
            \<and> feature (portal_title mi portal pidx) (elem cs 0) (elem cs 1)
                \<in> set (concat (map (\<lambda>(mi, j, q). emitted mi q j) (row_major missions)))"
    if "is_feature_collection json = Inr False" "field json ''missions'' = JArr missions"
      "(mi, pidx, portal) \<in> set (row_major missions)"
  proof
    show "extractFeatures json =
             (if \<exists>m \<in> set missions. bad_portals m then Inl TypeError
              else Inr (JArr (concat (map (\<lambda>(mi, j, q). emitted mi q j) (row_major missions)))))"
      by (rule extract_missions [OF that(2) that(1)])
    have "feature (portal_title mi portal pidx) (elem cs 0) (elem cs 1)
        \<in> set (emitted mi portal pidx)"
      by (simp add: em)
    with that(3) show "feature (portal_title mi portal pidx) (elem cs 0) (elem cs 1)
                \<in> set (concat (map (\<lambda>(mi, j, q). emitted mi q j) (row_major missions)))"
      by force
  qed
  from step single top show ?thesis by blast
qed

text \<open>
  The third portal of the example, alone and in the example input, where it is the first
  portal of the third mission and its feature is the last of the three returned.
\<close>

theorem geometry_fallback_on_portal_witness:
  "\<not> nullish portal_c
   \<and> truthy (field portal_c ''location'')
   \<and> \<not> (is_number (field (field portal_c ''location'') ''latitude'')
           \<and> is_number (field (field portal_c ''location'') ''longitude''))
   \<and> \<not> (is_number (field (field portal_c ''location'') ''lat'')
           \<and> is_number (field (field portal_c ''location'') ''lng''))
   \<and> truthy (field portal_c ''geometry'')
   \<and> field (field portal_c ''geometry'') ''type'' = JStr ''Point''
   \<and> field (field portal_c ''geometry'') ''coordinates''
        = JArr [JNum (Finite 174.79), JNum (Finite (-41.31))]
   \<and> portal_step 2 portal_c 0 []
        = Inr [feature (JStr ''Portal 3-1'') (JNum (Finite 174.79)) (JNum (Finite (-41.31)))]
   \<and> extractFeatures (JObj [(''missions'', JArr [JObj [(''portals'', JArr [portal_c])]])])
        = Inr (JArr [feature (JStr ''Portal 1-1'') (JNum (Finite 174.79)) (JNum (Finite (-41.31)))])
   \<and> is_feature_collection example_json = Inr False
   \<and> field example_json ''missions'' = JArr example_missions
   \<and> (2, 0, portal_c) \<in> set (row_major example_missions)
   \<and> extractFeatures example_json
        = Inr (JArr (concat (map (\<lambda>(mi, j, q). emitted mi q j) (row_major example_missions))))
   \<and> feature (JStr ''Portal 3-1'') (JNum (Finite 174.79)) (JNum (Finite (-41.31)))
        \<in> set (concat (map (\<lambda>(mi, j, q). emitted mi q j) (row_major example_missions)))
   \<and> extractFeatures example_json = Inr (JArr example_features)
   \<and> example_features ! 2
        = feature (JStr ''Portal 3-1'') (JNum (Finite 174.79)) (JNum (Finite (-41.31)))"
proof -
  have h1: "\<not> nullish portal_c" by code_simp
  have h2: "truthy (field portal_c ''location'')" by code_simp
  have h3: "\<not> (is_number (field (field portal_c ''location'') ''latitude'')
           \<and> is_number (field (field portal_c ''location'') ''longitude''))" by code_simp
  have h4: "\<not> (is_number (field (field portal_c ''location'') ''lat'')
           \<and> is_number (field (field portal_c ''location'') ''lng''))" by code_simp
  have h5: "truthy (field portal_c ''geometry'')" by code_simp
  have h6: "field (field portal_c ''geometry'') ''type'' = JStr ''Point''" by code_simp
  have h7: "field (field portal_c ''geometry'') ''coordinates''
        = JArr [JNum (Finite 174.79), JNum (Finite (-41.31))]" by code_simp
  have h8: "is_number (elem [JNum (Finite 174.79), JNum (Finite (-41.31))] 0)"
    by (simp add: elem_def)
  have h9: "is_number (elem [JNum (Finite 174.79), JNum (Finite (-41.31))] 1)"
    by (simp add: elem_def)
  have t: "portal_title 2 portal_c 0 = JStr ''Portal 3-1''"
    "portal_title 0 portal_c 0 = JStr ''Portal 1-1''" by code_simp+
  have m: "(2, 0, portal_c) \<in> set (row_major example_missions)" by code_simp
  have ok: "\<not> (\<exists>m \<in> set example_missions. bad_portals m)" by code_simp
  have e: "example_features ! 2
        = feature (JStr ''Portal 3-1'') (JNum (Finite 174.79)) (JNum (Finite (-41.31)))"
    by (simp add: example_features_def)
  note fallback = geometry_fallback_on_portal [OF h1 h2 h3 h4 h5 h6 h7 h8 h9,
      of 2 0 "[]" example_json example_missions]
  have a: "portal_step 2 portal_c 0 []
        = Inr [feature (JStr ''Portal 3-1'') (JNum (Finite 174.79)) (JNum (Finite (-41.31)))]"
    using fallback t by (simp add: elem_def)
  have b: "extractFeatures (JObj [(''missions'', JArr [JObj [(''portals'', JArr [portal_c])]])])
        = Inr (JArr [feature (JStr ''Portal 1-1'') (JNum (Finite 174.79)) (JNum (Finite (-41.31)))])"
    using fallback t by (simp add: elem_def)
  from fallback example_fc example_field m
  have "extractFeatures example_json =
             (if \<exists>m \<in> set example_missions. bad_portals m then Inl TypeError
              else Inr (JArr (concat (map (\<lambda>(mi, j, q). emitted mi q j)
                                          (row_major example_missions)))))"
    and "feature (portal_title 2 portal_c 0)
            (elem [JNum (Finite 174.79), JNum (Finite (-41.31))] 0)
            (elem [JNum (Finite 174.79), JNum (Finite (-41.31))] 1)
          \<in> set (concat (map (\<lambda>(mi, j, q). emitted mi q j) (row_major example_missions)))"
    by blast+
  then have c: "extractFeatures example_json
        = Inr (JArr (concat (map (\<lambda>(mi, j, q). emitted mi q j) (row_major example_missions))))"
    and d: "feature (JStr ''Portal 3-1'') (JNum (Finite 174.79)) (JNum (Finite (-41.31)))
        \<in> set (concat (map (\<lambda>(mi, j, q). emitted mi q j) (row_major example_missions)))"
    using ok unfolding t by (simp_all add: elem_def del: set_concat)
  from h1 h2 h3 h4 h5 h6 h7 a b example_fc example_field m c d example_extract e
  show ?thesis by blast
qed

subsection \<open>Rows of the CSV converter\<close>

text \<open>
  Claim C10: the rows of the converter are the header followed by the rows of the
  portals in row-major order, one for each portal, unless the input makes a property
  read or a method call throw (\<open>csv_throws\<close>); each row has seven cells and starts with
  the mission number and the portal number; and where \<^verbatim>\<open>p.location?.latitude\<close> or
  \<^verbatim>\<open>p.location?.longitude\<close> is null or undefined the cell of that column is the empty
  string.
\<close>

theorem csv_one_row_per_portal:
  "rows data =
     (if csv_throws data then Inl TypeError
      else Inr (header # map (\<lambda>(mi, pidx, p). written_row mi p pidx)
                             (row_major (missions_of data))))
   \<and> (\<not> csv_throws data \<longrightarrow>
       (\<forall>(mi, pidx, p) \<in> set (row_major (missions_of data)).
          csv_row mi p pidx = Inr (written_row mi p pidx)
          \<and> length (written_row mi p pidx) = 7
          \<and> written_row mi p pidx ! 0 = JNum (Finite (real (mi + 1)))
          \<and> written_row mi p pidx ! 1 = JNum (Finite (real (pidx + 1)))
          \<and> (nullish (field p ''location'') \<or> nullish (field (field p ''location'') ''latitude'')
               \<longrightarrow> written_row mi p pidx ! 4 = JStr '''')
          \<and> (nullish (field p ''location'') \<or> nullish (field (field p ''location'') ''longitude'')
               \<longrightarrow> written_row mi p pidx ! 5 = JStr '''')))"
proof (intro conjI impI ballI)
  show "rows data =
     (if csv_throws data then Inl TypeError
      else Inr (header # map (\<lambda>(mi, pidx, p). written_row mi p pidx)
                             (row_major (missions_of data))))"
    by (rule rows_eval)
next
  fix x
  assume ok: "\<not> csv_throws data" and x: "x \<in> set (row_major (missions_of data))"
  obtain mi j p where xe: "x = (mi, j, p)" by (cases x) auto
  from row_major_portal x xe obtain m where "m \<in> set (missions_of data)" "p \<in> set (portals_of m)"
    by blast
  with ok have "\<not> unwritable p"
    by (auto simp: csv_throws_def csv_bad_def)
  from csv_row_cells [OF this, of mi j] xe
  show "case x of (mi, pidx, p) \<Rightarrow>
          csv_row mi p pidx = Inr (written_row mi p pidx)
          \<and> length (written_row mi p pidx) = 7
          \<and> written_row mi p pidx ! 0 = JNum (Finite (real (mi + 1)))
          \<and> written_row mi p pidx ! 1 = JNum (Finite (real (pidx + 1)))
          \<and> (nullish (field p ''location'') \<or> nullish (field (field p ''location'') ''latitude'')
               \<longrightarrow> written_row mi p pidx ! 4 = JStr '''')
          \<and> (nullish (field p ''location'') \<or> nullish (field (field p ''location'') ''longitude'')
               \<longrightarrow> written_row mi p pidx ! 5 = JStr '''')"
    by simp
qed

text \<open>
  Three portals in two of three missions; the second portal has no location, the third
  a null latitude.
\<close>

theorem csv_one_row_per_portal_witness:
  "\<not> csv_throws example_data
   \<and> rows example_data = Inr [header,
     [JNum (Finite 1), JNum (Finite 1), JStr ''A'', JStr ''two words'',
      JNum (Finite (-41.29)), JNum (Finite 174.77), JStr ''''],
     [JNum (Finite 1), JNum (Finite 2), JStr '''', JStr '''', JStr '''', JStr '''', JStr ''u''],
     [JNum (Finite 3), JNum (Finite 1), JStr '''', JStr '''', JStr '''', JNum (Finite 1), JStr '''']]
   \<and> length (row_major (missions_of example_data)) = 3
   \<and> map (\<lambda>(mi, pidx, p). written_row mi p pidx) (row_major (missions_of example_data))
      = [[JNum (Finite 1), JNum (Finite 1), JStr ''A'', JStr ''two words'',
          JNum (Finite (-41.29)), JNum (Finite 174.77), JStr ''''],
         [JNum (Finite 1), JNum (Finite 2), JStr '''', JStr '''', JStr '''', JStr '''', JStr ''u''],
         [JNum (Finite 3), JNum (Finite 1), JStr '''', JStr '''', JStr '''', JNum (Finite 1), JStr '''']]
   \<and> list_all (\<lambda>(mi, pidx, p). csv_row mi p pidx = Inr (written_row mi p pidx))
        (row_major (missions_of example_data))"
proof -
  have ok: "\<not> csv_throws example_data" by code_simp
  have n: "length (row_major (missions_of example_data)) = 3" by code_simp
  from csv_one_row_per_portal [of example_data] ok
  have "rows example_data = Inr (header # map (\<lambda>(mi, pidx, p). written_row mi p pidx)
                             (row_major (missions_of example_data)))"
    and "\<forall>(mi, pidx, p) \<in> set (row_major (missions_of example_data)).
          csv_row mi p pidx = Inr (written_row mi p pidx)"
    by auto
  with ok n example_rows show ?thesis
    unfolding list_all_iff by simp
qed

end
